theory Spec2Isabelle
  imports Main
begin

section \<open>The start task of a workflow: \<^verbatim>\<open>viewflow/flow/start.py\<close>\<close>

text \<open>
  The module is Python. Objects are records passed through the methods that mutate
  them (a method that ends in \<^verbatim>\<open>return self\<close> returns the updated record), calls into
  the web framework are recorded as events of a trace in the order the code makes them,
  and every exception is a value \<open>Inl e\<close> of a sum type. A private attribute
  \<^verbatim>\<open>_owner\<close> is the field \<open>p_owner\<close>: an Isabelle name cannot start with an underscore.
\<close>

subsection \<open>Python values\<close>

text \<open>Keyword arguments (\<^verbatim>\<open>**owner_kwargs\<close>, \<^verbatim>\<open>**kwargs\<close>) and form data: a dictionary
  with string keys, in insertion order.\<close>

type_synonym kwargs = "(string \<times> string) list"

text \<open>
  What \<^verbatim>\<open>Available\<close> and \<^verbatim>\<open>Permission\<close> are given and \<^verbatim>\<open>has_perm\<close> later inspects
  with \<^verbatim>\<open>callable\<close>, by truth value and with \<^verbatim>\<open>**\<close>: \<^verbatim>\<open>None\<close>, a function over
  principals (read through the truth value of what it returns), a dictionary, or a
  string (a permission name).
\<close>

datatype 'u pyval =
    PyNone
  | PyFun "'u \<Rightarrow> bool"
  | PyDict kwargs
  | PyStr string

text \<open>Python's truth value: \<^verbatim>\<open>None\<close>, the empty dictionary and the empty string are
  false, a function is true.\<close>

fun truthy :: "'u pyval \<Rightarrow> bool" where
  "truthy PyNone = False"
| "truthy (PyFun f) = True"
| "truthy (PyDict d) = (d \<noteq> [])"
| "truthy (PyStr s) = (s \<noteq> [])"

fun callable :: "'u pyval \<Rightarrow> bool" where
  "callable (PyFun f) = True"
| "callable v = False"

text \<open>\<open>call v u\<close> is \<^verbatim>\<open>v(u)\<close>; the code only calls what \<^verbatim>\<open>callable\<close> accepted.\<close>

fun call :: "'u pyval \<Rightarrow> 'u \<Rightarrow> bool" where
  "call (PyFun f) u = f u"
| "call v u = False"

datatype error =
    TypeError
  | DoesNotExist
  | MultipleObjectsReturned
  | FlowRuntimeError string

text \<open>\<^verbatim>\<open>f(**v)\<close>: the argument after \<^verbatim>\<open>**\<close> must be a mapping, anything else raises
  \<^verbatim>\<open>TypeError\<close> before \<^verbatim>\<open>f\<close> is entered.\<close>

fun unpack :: "'u pyval \<Rightarrow> error + kwargs" where
  "unpack (PyDict d) = Inr d"
| "unpack v = Inl TypeError"

subsection \<open>Classes and the constructor's first argument\<close>

text \<open>A class, by its name and whether \<^verbatim>\<open>StartActivation\<close> is among its bases
  (what \<^verbatim>\<open>issubclass(c, StartActivation)\<close> answers).\<close>

datatype pycls = Cls (cls_name: string) (is_StartActivation: bool)

text \<open>Line 57: \<^verbatim>\<open>class StartViewActivation(StartActivation)\<close>.\<close>

definition StartViewActivation :: pycls where
  "StartViewActivation = Cls ''StartViewActivation'' True"

text \<open>\<^verbatim>\<open>view_or_cls\<close>: \<^verbatim>\<open>None\<close>, a plain function (\<^verbatim>\<open>isfunction\<close> holds), a class, or any
  other object (a callable instance, say), on which \<^verbatim>\<open>issubclass\<close> raises
  \<^verbatim>\<open>TypeError\<close>.\<close>

datatype view_arg =
    ArgNone
  | ArgFunction string
  | ArgClass pycls
  | ArgOther string

subsection \<open>The Start node\<close>

record ('u, 'n) start =
  p_view :: "string option"
  p_view_cls :: "pycls option"
  p_view_args :: "kwargs option"
  activation_cls_attr :: "pycls option"
  name :: "string option"
  p_activate_next :: "'n list"
  p_owner :: "'u pyval"
  p_owner_permission :: "'u pyval"
  p_assign_view :: "string option"

text \<open>
  Modelled from the spec: the constructor of the base node class (\<^verbatim>\<open>Event\<close>, of
  \<^verbatim>\<open>viewflow.flow.base\<close>, which is not among the sources). It stores the activation
  type it is given as the node's own attribute when one is given, and leaves the node
  unnamed; with none given the class attribute stays in force.
\<close>

definition Event_init :: "pycls option \<Rightarrow> pycls option \<times> string option" where
  "Event_init activation_cls = (activation_cls, None)"

text \<open>
  \<^verbatim>\<open>Start.__init__(self, view_or_cls=None, activation_cls=None, **kwargs)\<close>, lines
  130 to 149.
\<close>

definition Start_init :: "view_arg \<Rightarrow> pycls option \<Rightarrow> kwargs \<Rightarrow> error + ('u, 'n) start" where
  "Start_init view_or_cls activation_cls kwargs =
     (let finish = (\<lambda>v c a acls.
            \<lparr> p_view = v, p_view_cls = c, p_view_args = a,
              activation_cls_attr = fst (Event_init acls),
              name = snd (Event_init acls),
              p_activate_next = [], p_owner = PyNone, p_owner_permission = PyNone,
              p_assign_view = None \<rparr>)
      in case view_or_cls of
           ArgFunction f \<Rightarrow> Inr (finish (Some f) None None activation_cls)
         | ArgNone \<Rightarrow> Inr (finish None None None activation_cls)
         | ArgClass c \<Rightarrow>
             Inr (finish None (Some c) (Some kwargs)
                    (if is_StartActivation c then Some c else activation_cls))
         | ArgOther x \<Rightarrow> Inl TypeError)"

text \<open>
  \<^verbatim>\<open>self.activation_cls\<close> read on a Start node: the node's own attribute when the
  constructor set one, else the class attribute of line 128,
  \<^verbatim>\<open>activation_cls = StartViewActivation\<close>.
\<close>

definition activation_cls :: "('u, 'n) start \<Rightarrow> pycls option" where
  "activation_cls self =
     (case activation_cls_attr self of
        Some c \<Rightarrow> Some c
      | None \<Rightarrow> Some StartViewActivation)"

text \<open>\<^verbatim>\<open>Activate\<close>, \<^verbatim>\<open>Available\<close> and \<^verbatim>\<open>Permission\<close>, lines 162 to 190; each returns
  \<^verbatim>\<open>self\<close>.\<close>

definition Activate :: "'n \<Rightarrow> ('u, 'n) start \<Rightarrow> ('u, 'n) start" where
  "Activate node self = self\<lparr>p_activate_next := p_activate_next self @ [node]\<rparr>"

definition Available :: "'u pyval \<Rightarrow> kwargs \<Rightarrow> ('u, 'n) start \<Rightarrow> ('u, 'n) start" where
  "Available owner owner_kwargs self =
     (if truthy owner then self\<lparr>p_owner := owner\<rparr>
      else self\<lparr>p_owner := PyDict owner_kwargs\<rparr>)"

definition Permission :: "'u pyval \<Rightarrow> string option \<Rightarrow> ('u, 'n) start \<Rightarrow> ('u, 'n) start" where
  "Permission permission assign_view self =
     self\<lparr>p_owner_permission := permission, p_assign_view := assign_view\<rparr>"

subsection \<open>Authorisation\<close>

text \<open>
  The collaborators of \<^verbatim>\<open>has_perm\<close>: the principal store
  (\<^verbatim>\<open>get_user_model()._default_manager.get(**kw)\<close>, which returns the one principal that
  matches or raises) and the principal's own \<^verbatim>\<open>has_perm\<close>.
\<close>

record 'u env =
  manager_get :: "kwargs \<Rightarrow> error + 'u"
  user_has_perm :: "'u \<Rightarrow> 'u pyval \<Rightarrow> bool"

text \<open>The calls \<^verbatim>\<open>has_perm\<close> makes, in the order it makes them.\<close>

datatype 'u event =
    CallOwner 'u
  | CallPermission 'u
  | GetUserModel
  | ManagerGet kwargs
  | UserHasPerm 'u "'u pyval"

fun permission_event :: "'u event \<Rightarrow> bool" where
  "permission_event (CallPermission u) = True"
| "permission_event (UserHasPerm u p) = True"
| "permission_event e = False"

fun store_event :: "'u event \<Rightarrow> bool" where
  "store_event GetUserModel = True"
| "store_event (ManagerGet kw) = True"
| "store_event e = False"

text \<open>
  \<^verbatim>\<open>Start.has_perm(self, user)\<close>, lines 203 to 221. Python's \<^verbatim>\<open>and\<close> calls the
  predicate only when \<^verbatim>\<open>callable\<close> held; when the conjunction is false the code goes on
  to the statement after the \<^verbatim>\<open>if\<close>. In \<^verbatim>\<open>get_user_model()._default_manager.get(**self._owner)\<close>
  the callee is evaluated before the arguments are unpacked.
\<close>

definition has_perm ::
  "'u env \<Rightarrow> ('u, 'n) start \<Rightarrow> 'u \<Rightarrow> 'u event list \<times> (error + bool)" where
  "has_perm env self user =
     (if truthy (p_owner self) then
        (if callable (p_owner self) \<and> call (p_owner self) user then
           ([CallOwner user], Inr True)
         else
           (let called = (if callable (p_owner self) then [CallOwner user] else [])
            in case unpack (p_owner self) of
                 Inl e \<Rightarrow> (called @ [GetUserModel], Inl e)
               | Inr kw \<Rightarrow>
                   (called @ [GetUserModel, ManagerGet kw],
                    case manager_get env kw of
                      Inl e \<Rightarrow> Inl e
                    | Inr owner \<Rightarrow> Inr (owner = user))))
      else if truthy (p_owner_permission self) then
        (if callable (p_owner_permission self) \<and> call (p_owner_permission self) user then
           ([CallPermission user], Inr True)
         else
           ((if callable (p_owner_permission self) then [CallPermission user] else [])
              @ [UserHasPerm user (p_owner_permission self)],
            Inr (user_has_perm env user (p_owner_permission self))))
      else ([], Inr True))"

subsection \<open>Outgoing edges\<close>

record ('s, 'n) edge =
  src :: 's
  dst :: 'n
  edge_class :: string

text \<open>\<^verbatim>\<open>Start._outgoing\<close>, lines 151 to 153: one edge per registered node, in the order of
  the list. The generator is consumed by the one loop of \<^verbatim>\<open>activate_next\<close>, so it is the
  list of what it yields.\<close>

definition p_outgoing :: "('u, 'n) start \<Rightarrow> (('u, 'n) start, 'n) edge list" where
  "p_outgoing self =
     map (\<lambda>next_node. \<lparr> src = self, dst = next_node, edge_class = ''next'' \<rparr>)
       (p_activate_next self)"

text \<open>The call \<^verbatim>\<open>node.activate(prev_activation=a)\<close> on a destination node.\<close>

datatype ('n, 'a) activation_event = DstActivate 'n 'a

text \<open>The loop of \<^verbatim>\<open>activate_next\<close>, lines 159 and 160.\<close>

fun activate_edges ::
  "('s, 'n) edge list \<Rightarrow> 'a \<Rightarrow> ('n, 'a) activation_event list" where
  "activate_edges [] self_activation = []"
| "activate_edges (outgoing # rest) self_activation =
     DstActivate (dst outgoing) self_activation # activate_edges rest self_activation"

definition activate_next ::
  "('u, 'n) start \<Rightarrow> 'a \<Rightarrow> kwargs \<Rightarrow> ('n, 'a) activation_event list" where
  "activate_next self self_activation kwargs = activate_edges (p_outgoing self) self_activation"

subsection \<open>StartViewActivation\<close>

text \<open>
  A management form class is the web framework's: what a form built from it with
  \<^verbatim>\<open>data\<close> and \<^verbatim>\<open>instance\<close> answers to \<^verbatim>\<open>is_valid()\<close>, \<^verbatim>\<open>errors\<close> and
  \<^verbatim>\<open>save(commit)\<close>. \<open>'t\<close> is the task record as the activation holds it.
\<close>

record 't form_cls =
  form_is_valid :: "kwargs option \<Rightarrow> 't \<Rightarrow> bool"
  form_errors :: "kwargs option \<Rightarrow> 't \<Rightarrow> string"
  form_save :: "bool \<Rightarrow> kwargs option \<Rightarrow> 't \<Rightarrow> 't"

record 't form =
  form_class :: "'t form_cls"
  form_data :: "kwargs option"
  form_instance :: 't

definition is_valid :: "'t form \<Rightarrow> bool" where
  "is_valid f = form_is_valid (form_class f) (form_data f) (form_instance f)"

definition errors :: "'t form \<Rightarrow> string" where
  "errors f = form_errors (form_class f) (form_data f) (form_instance f)"

definition save :: "'t form \<Rightarrow> bool \<Rightarrow> 't" where
  "save f commit = form_save (form_class f) commit (form_data f) (form_instance f)"

text \<open>The activation: its own \<^verbatim>\<open>management_form_cls\<close> (\<^verbatim>\<open>None\<close> unless the constructor
  was given one), the one of its flow class (\<^verbatim>\<open>self.flow_cls.management_form_cls\<close>), the
  form of the last \<^verbatim>\<open>prepare\<close> and the task record.\<close>

record 't start_view_activation =
  management_form_cls :: "'t form_cls option"
  flow_cls_management_form_cls :: "'t form_cls"
  management_form :: "'t form option"
  task :: 't

definition get_management_form_cls :: "'t start_view_activation \<Rightarrow> 't form_cls" where
  "get_management_form_cls self =
     (case management_form_cls self of
        Some c \<Rightarrow> c
      | None \<Rightarrow> flow_cls_management_form_cls self)"

text \<open>Lines 78 and 79: \<^verbatim>\<open>management_form_cls(data=data, instance=self.task)\<close>.\<close>

definition new_management_form :: "'t start_view_activation \<Rightarrow> kwargs option \<Rightarrow> 't form" where
  "new_management_form self data =
     \<lparr> form_class = get_management_form_cls self, form_data = data, form_instance = task self \<rparr>"

text \<open>\<^verbatim>\<open>if data:\<close> is false for \<^verbatim>\<open>None\<close> and for an empty dictionary.\<close>

definition data_truthy :: "kwargs option \<Rightarrow> bool" where
  "data_truthy data = (case data of None \<Rightarrow> False | Some d \<Rightarrow> d \<noteq> [])"

datatype prepare_event =
    SuperPrepare
  | FormCreate
  | FormIsValid
  | FormErrors
  | FormSave bool

text \<open>
  \<^verbatim>\<open>StartViewActivation.prepare(self, data=None)\<close>, lines 75 to 84. The inherited
  \<^verbatim>\<open>prepare\<close> of \<^verbatim>\<open>StartActivation\<close> (\<^verbatim>\<open>viewflow.activation\<close>, not among the sources) is
  the parameter \<open>super_prepare\<close>. The result is the trace, the activation as the call
  leaves it (also when it raises) and the outcome.
\<close>

definition prepare ::
  "('t start_view_activation \<Rightarrow> 't start_view_activation) \<Rightarrow> kwargs option \<Rightarrow>
     't start_view_activation \<Rightarrow>
     prepare_event list \<times> 't start_view_activation \<times> (error + unit)" where
  "prepare super_prepare data self0 =
     (let self1 = super_prepare self0;
          f = new_management_form self1 data;
          self2 = self1\<lparr>management_form := Some f\<rparr>
      in if data_truthy data then
           (if \<not> is_valid f then
              ([SuperPrepare, FormCreate, FormIsValid, FormErrors], self2,
               Inl (FlowRuntimeError (''Activation metadata is broken '' @ errors f)))
            else
              ([SuperPrepare, FormCreate, FormIsValid, FormSave False],
               self2\<lparr>task := save f False\<rparr>, Inr ()))
         else ([SuperPrepare, FormCreate], self2, Inr ()))"

subsection \<open>StartViewDecorator\<close>

text \<open>An object: its identity and its class; \<^verbatim>\<open>isinstance(o, StartActivation)\<close> is
  \<open>is_StartActivation (obj_cls o)\<close>.\<close>

datatype pyobj = Obj (obj_id: nat) (obj_cls: pycls)

text \<open>The wrapped callable: a plain function, or a method bound to an instance by
  \<^verbatim>\<open>self.func.__get__(instance, type)\<close>; a bound method stays bound to its instance.\<close>

datatype pyfunc = Function string | BoundMethod string pyobj

fun bind :: "pyfunc \<Rightarrow> pyobj \<Rightarrow> pyfunc" where
  "bind (Function f) instance = BoundMethod f instance"
| "bind (BoundMethod f i) instance = BoundMethod f i"

record decorator =
  func :: pyfunc
  activation :: "pyobj option"

text \<open>The activation a call works with: the view instance itself, or an object newly
  made from a class.\<close>

datatype activation_obj = ViewInstance pyobj | NewActivation pycls

datatype ('u, 'n, 'q) decorator_event =
    Warn "string option"
  | Construct pycls
  | Initialize activation_obj "('u, 'n) start"
  | CallFunc pyfunc 'q "activation_obj option" kwargs

text \<open>
  \<^verbatim>\<open>StartViewDecorator.__call__(self, request, flow_task, **kwargs)\<close>, lines 27 to 39.
  \<open>body\<close> is what the wrapped callable returns for its arguments. A view instance is an
  object without a truth value of its own, so \<^verbatim>\<open>if self.activation\<close> asks whether it
  is there; calling \<^verbatim>\<open>None\<close> raises \<^verbatim>\<open>TypeError\<close>.
\<close>

definition decorator_call ::
  "(pyfunc \<Rightarrow> 'q \<Rightarrow> activation_obj option \<Rightarrow> kwargs \<Rightarrow> 'r) \<Rightarrow> decorator \<Rightarrow> 'q \<Rightarrow>
     ('u, 'n) start \<Rightarrow> kwargs \<Rightarrow> ('u, 'n, 'q) decorator_event list \<times> (error + 'r)" where
  "decorator_call body self request flow_task kwargs =
     (let warned =
            (if activation self \<noteq> None \<and> activation_cls flow_task \<noteq> None
             then [Warn (name flow_task)] else [])
      in case activation self of
           Some a \<Rightarrow>
             (warned @ [Initialize (ViewInstance a) flow_task,
                        CallFunc (func self) request None kwargs],
              Inr (body (func self) request None kwargs))
         | None \<Rightarrow>
             (case activation_cls flow_task of
                None \<Rightarrow> (warned, Inl TypeError)
              | Some c \<Rightarrow>
                  (warned @ [Construct c, Initialize (NewActivation c) flow_task,
                             CallFunc (func self) request (Some (NewActivation c)) kwargs],
                   Inr (body (func self) request (Some (NewActivation c)) kwargs))))"

text \<open>\<^verbatim>\<open>StartViewDecorator.__get__(self, instance, instancetype)\<close>, lines 41 to 52.\<close>

definition decorator_get :: "decorator \<Rightarrow> pyobj option \<Rightarrow> decorator" where
  "decorator_get self instance =
     (case instance of
        None \<Rightarrow> self
      | Some i \<Rightarrow>
          \<lparr> func = bind (func self) i,
            activation = (if is_StartActivation (obj_cls i) then Some i else None) \<rparr>)"

section \<open>Properties\<close>

subsection \<open>Authorisation\<close>

lemma has_perm_Activate:
  "has_perm env (Activate node self) user = has_perm env self user"
  by (simp add: has_perm_def Activate_def)

lemma has_perm_foldl_Activate:
  "has_perm env (foldl (\<lambda>s n. Activate n s) self nodes) user = has_perm env self user"
  by (induction nodes arbitrary: self) (simp_all add: has_perm_Activate)

text \<open>What \<^verbatim>\<open>has_perm\<close> does with a predicate as the owner restriction, and with a
  predicate as the permission restriction on a node with no owner restriction.\<close>

lemma has_perm_owner_predicate:
  "has_perm env (Available (PyFun f) owner_kwargs self) user
     = (if f user then ([CallOwner user], Inr True)
        else ([CallOwner user, GetUserModel], Inl TypeError))"
  by (simp add: has_perm_def Available_def)

lemma has_perm_permission_predicate:
  "has_perm env (Permission (PyFun f) assign_view (self\<lparr>p_owner := PyNone\<rparr>)) user
     = (if f user then ([CallPermission user], Inr True)
        else ([CallPermission user, UserHasPerm user (PyFun f)],
              Inr (user_has_perm env user (PyFun f))))"
  by (simp add: has_perm_def Permission_def)

text \<open>
  C1. With a callable owner restriction, \<^verbatim>\<open>has_perm\<close> should answer what the predicate
  answers. The code does so only when the predicate holds. When the predicate is false
  the conjunction of line 207 is false, the code falls through to line 209 and unpacks
  the function with \<^verbatim>\<open>**\<close>: on a node made available to the predicate that refuses
  everybody, \<^verbatim>\<open>has_perm\<close> calls the predicate, reaches for the principal store and raises
  \<^verbatim>\<open>TypeError\<close> instead of returning \<^verbatim>\<open>False\<close>, for every principal.
\<close>

theorem has_perm_owner_predicate_false:
  "has_perm env (Available (PyFun (\<lambda>u. False)) owner_kwargs self) user
     = ([CallOwner user, GetUserModel], Inl TypeError)"
  by (simp add: has_perm_def Available_def)

text \<open>
  C2. With no owner restriction and a callable permission restriction, \<^verbatim>\<open>has_perm\<close>
  should answer what the predicate answers and never ask the principal. When the
  predicate is false the code falls through to line 215: it calls the predicate, then
  calls the principal's own \<^verbatim>\<open>has_perm\<close> with the function as the permission and
  returns what that answers.
\<close>

theorem has_perm_permission_predicate_false:
  "has_perm env (Permission (PyFun (\<lambda>u. False)) assign_view (self\<lparr>p_owner := PyNone\<rparr>)) user
     = ([CallPermission user, UserHasPerm user (PyFun (\<lambda>u. False))],
        Inr (user_has_perm env user (PyFun (\<lambda>u. False))))"
  by (simp add: has_perm_def Permission_def)

text \<open>
  C3. On a node whose owner restriction is set (the test of line 206: the stored value
  is true, a predicate or a non-empty lookup), \<^verbatim>\<open>has_perm\<close> never evaluates the
  permission restriction: its trace holds neither a call of a permission predicate nor
  a call of the principal's \<^verbatim>\<open>has_perm\<close>, and configuring any permission restriction
  changes neither the trace nor the outcome.
\<close>

theorem has_perm_owner_precedence:
  assumes "truthy (p_owner self)"
  shows "filter permission_event (fst (has_perm env self user)) = []
       \<and> has_perm env (Permission permission assign_view self) user = has_perm env self user"
  using assms
  by (cases "p_owner self") (auto simp add: has_perm_def Permission_def split: sum.splits)

theorem has_perm_owner_precedence_witness:
  "truthy (p_owner (Permission (PyStr ''app.can_start'') None
       (Available PyNone [(''username'', ''employee'')]
          (projr (Start_init ArgNone None [] :: error + (nat, nat) start)))))
   \<and> filter permission_event (fst (has_perm \<lparr> manager_get = (\<lambda>kw. Inr 7), user_has_perm = (\<lambda>u p. True) \<rparr>
        (Permission (PyStr ''app.can_start'') None
          (Available PyNone [(''username'', ''employee'')]
            (projr (Start_init ArgNone None [] :: error + (nat, nat) start)))) (3::nat))) = []
   \<and> has_perm \<lparr> manager_get = (\<lambda>kw. Inr 7), user_has_perm = (\<lambda>u p. True) \<rparr>
        (Permission (PyStr ''app.can_start'') None
          (Available PyNone [(''username'', ''employee'')]
            (projr (Start_init ArgNone None [] :: error + (nat, nat) start)))) (3::nat)
      = ([GetUserModel, ManagerGet [(''username'', ''employee'')]], Inr False)"
proof -
  let ?s0 = "projr (Start_init ArgNone None [] :: error + (nat, nat) start)"
  let ?s = "Permission (PyStr ''app.can_start'') None (Available PyNone [(''username'', ''employee'')] ?s0)"
  have t: "truthy (p_owner ?s)"
    by (simp add: Permission_def Available_def)
  have e: "has_perm \<lparr> manager_get = (\<lambda>kw. Inr 7), user_has_perm = (\<lambda>u p. True) \<rparr> ?s (3::nat)
      = ([GetUserModel, ManagerGet [(''username'', ''employee'')]], Inr False)"
    by (simp add: has_perm_def Permission_def Available_def)
  from has_perm_owner_precedence [OF t, of "\<lparr> manager_get = (\<lambda>kw. Inr 7), user_has_perm = (\<lambda>u p. True) \<rparr>" 3]
  show ?thesis using t e by simp
qed

text \<open>
  C4. A node as the constructor leaves it, with any number of \<^verbatim>\<open>Activate\<close> calls and
  neither \<^verbatim>\<open>Available\<close> nor \<^verbatim>\<open>Permission\<close> called, authorises every principal, and
  \<^verbatim>\<open>has_perm\<close> calls nothing on the way.
\<close>

theorem has_perm_no_restriction:
  assumes "Start_init view_or_cls acls kwargs = Inr self"
  shows "has_perm env (foldl (\<lambda>s n. Activate n s) self nodes) user = ([], Inr True)"
proof -
  have "p_owner self = PyNone" and "p_owner_permission self = PyNone"
    using assms by (auto simp add: Start_init_def Let_def split: view_arg.splits)
  then have "has_perm env self user = ([], Inr True)"
    by (simp add: has_perm_def)
  then show ?thesis by (simp add: has_perm_foldl_Activate)
qed

theorem has_perm_no_restriction_witness:
  "(Start_init ArgNone None [] :: error + (nat, nat) start)
      = Inr (projr (Start_init ArgNone None []))
   \<and> has_perm \<lparr> manager_get = (\<lambda>kw. Inl DoesNotExist), user_has_perm = (\<lambda>u p. False) \<rparr>
        (foldl (\<lambda>s n. Activate n s) (projr (Start_init ArgNone None [] :: error + (nat, nat) start)) [1, 2])
        (5::nat) = ([], Inr True)"
proof -
  have i: "(Start_init ArgNone None [] :: error + (nat, nat) start)
      = Inr (projr (Start_init ArgNone None []))"
    by (simp add: Start_init_def)
  have h: "has_perm \<lparr> manager_get = (\<lambda>kw. Inl DoesNotExist), user_has_perm = (\<lambda>u p. False) \<rparr>
        (foldl (\<lambda>s n. Activate n s) (projr (Start_init ArgNone None [] :: error + (nat, nat) start)) [1, 2])
        (5::nat) = ([], Inr True)"
    by (rule has_perm_no_restriction [OF i])
  show ?thesis by (rule conjI [OF i h])
qed

text \<open>
  C10. \<^verbatim>\<open>Available\<close> called with an owner argument that is false (\<^verbatim>\<open>None\<close>, the
  default, among them) and no lookup keywords stores the empty dictionary as the owner
  restriction. Line 206 takes it for no owner restriction: on such a node with no
  permission restriction \<^verbatim>\<open>has_perm\<close> authorises every principal and calls nothing,
  the principal store included.
\<close>

theorem has_perm_empty_Available:
  assumes "\<not> truthy owner" and "\<not> truthy (p_owner_permission self)"
  shows "p_owner (Available owner [] self) = PyDict []
       \<and> has_perm env (Available owner [] self) user = ([], Inr True)"
  using assms by (simp add: has_perm_def Available_def)

theorem has_perm_empty_Available_witness:
  "\<not> truthy (PyNone :: nat pyval)
   \<and> \<not> truthy (p_owner_permission (projr (Start_init ArgNone None [] :: error + (nat, nat) start)))
   \<and> p_owner (Available PyNone [] (projr (Start_init ArgNone None [] :: error + (nat, nat) start))) = PyDict []
   \<and> has_perm \<lparr> manager_get = (\<lambda>kw. Inl DoesNotExist), user_has_perm = (\<lambda>u p. False) \<rparr>
        (Available PyNone [] (projr (Start_init ArgNone None [] :: error + (nat, nat) start))) (5::nat)
      = ([], Inr True)"
proof -
  have a: "\<not> truthy (PyNone :: nat pyval)" by simp
  have b: "\<not> truthy (p_owner_permission (projr (Start_init ArgNone None [] :: error + (nat, nat) start)))"
    by (simp add: Start_init_def)
  from has_perm_empty_Available [OF a b] show ?thesis using a b by simp
qed

subsection \<open>Outgoing edges\<close>

lemma activate_edges_map:
  "activate_edges (map (\<lambda>n. \<lparr> src = s, dst = n, edge_class = c \<rparr>) ns) a
     = map (\<lambda>n. DstActivate n a) ns"
  by (induction ns) simp_all

lemma activate_next_trace:
  "activate_next self a kw = map (\<lambda>n. DstActivate n a) (p_activate_next self)"
  by (simp add: activate_next_def p_outgoing_def activate_edges_map)

lemma p_activate_next_foldl:
  "p_activate_next (foldl (\<lambda>s n. Activate n s) self nodes) = p_activate_next self @ nodes"
  by (induction nodes arbitrary: self) (simp_all add: Activate_def)

lemma count_DstActivate:
  "length (filter (\<lambda>e. e = DstActivate n a) (map (\<lambda>m. DstActivate m a) ns)) = count_list ns n"
  by (induction ns) auto

text \<open>
  C5. On any node, each \<^verbatim>\<open>Activate(node)\<close> returns the node with \<open>node\<close> appended to
  its outgoing list and nothing else changed. After \<^verbatim>\<open>Activate\<close> has been called with
  the nodes of \<open>nodes\<close> in that order, the list is what it was followed by \<open>nodes\<close>,
  and \<^verbatim>\<open>activate_next(a)\<close> activates the nodes of the list in that order, each with
  \<open>a\<close> as the previous activation and each as often as it stands in the list.
\<close>

theorem Activate_then_activate_next:
  "Activate node self = self\<lparr>p_activate_next := p_activate_next self @ [node]\<rparr>
   \<and> p_activate_next (foldl (\<lambda>s n. Activate n s) self nodes) = p_activate_next self @ nodes
   \<and> activate_next (foldl (\<lambda>s n. Activate n s) self nodes) a kw
       = map (\<lambda>n. DstActivate n a) (p_activate_next self @ nodes)
   \<and> length (filter (\<lambda>e. e = DstActivate n a)
        (activate_next (foldl (\<lambda>s n. Activate n s) self nodes) a kw))
       = count_list (p_activate_next self @ nodes) n"
proof -
  have l: "p_activate_next (foldl (\<lambda>s n. Activate n s) self nodes) = p_activate_next self @ nodes"
    by (rule p_activate_next_foldl)
  have t: "activate_next (foldl (\<lambda>s n. Activate n s) self nodes) a kw
           = map (\<lambda>n. DstActivate n a) (p_activate_next self @ nodes)"
    unfolding activate_next_trace l by (rule refl)
  have c: "length (filter (\<lambda>e. e = DstActivate n a)
            (activate_next (foldl (\<lambda>s n. Activate n s) self nodes) a kw))
           = count_list (p_activate_next self @ nodes) n"
    unfolding t by (rule count_DstActivate)
  have r: "Activate node self = self\<lparr>p_activate_next := p_activate_next self @ [node]\<rparr>"
    by (rule Activate_def)
  show ?thesis
    by (intro conjI r l t c)
qed

text \<open>On a newly constructed node the list starts empty: three nodes registered in
  turn are activated in that order.\<close>

lemma activate_next_new_node:
  assumes "Start_init view_or_cls acls kwargs = Inr self"
  shows "activate_next (foldl (\<lambda>s n. Activate n s) self nodes) a kw
           = map (\<lambda>n. DstActivate n a) nodes"
proof -
  have "p_activate_next self = []"
    using assms by (auto simp add: Start_init_def Let_def split: view_arg.splits)
  then show ?thesis
    by (simp add: activate_next_trace p_activate_next_foldl)
qed

lemma activate_next_three_nodes:
  "activate_next
     (Activate ''archive'' (Activate ''notify'' (Activate ''approve''
        (projr (Start_init ArgNone None [] :: error + (nat, string) start)))))
     (4::nat) []
   = [DstActivate ''approve'' 4, DstActivate ''notify'' 4, DstActivate ''archive'' 4]"
  by (simp add: activate_next_trace Activate_def Start_init_def)

subsection \<open>StartViewActivation\<close>

text \<open>
  C6. \<^verbatim>\<open>prepare(data)\<close> with data present (the test of line 81: \<^verbatim>\<open>data\<close> is true) and a
  form that does not validate raises \<^verbatim>\<open>FlowRuntimeError\<close> with the form's errors in its
  message, without asking the form to save; the activation's task record is the one
  it had before the call, the inherited \<^verbatim>\<open>prepare\<close> leaving that attribute alone.
\<close>

theorem prepare_invalid_data:
  assumes "data_truthy data"
      and "\<not> is_valid (new_management_form (super_prepare self) data)"
      and "task (super_prepare self) = task self"
  shows "fst (prepare super_prepare data self) = [SuperPrepare, FormCreate, FormIsValid, FormErrors]
       \<and> snd (snd (prepare super_prepare data self))
           = Inl (FlowRuntimeError (''Activation metadata is broken ''
                   @ errors (new_management_form (super_prepare self) data)))
       \<and> task (fst (snd (prepare super_prepare data self))) = task self"
  using assms by (simp add: prepare_def Let_def)

theorem prepare_invalid_data_witness:
  "data_truthy (Some [(''started'', ''never'')])
   \<and> \<not> is_valid (new_management_form ((\<lambda>s. s)
         \<lparr> management_form_cls = None,
           flow_cls_management_form_cls =
             \<lparr> form_is_valid = (\<lambda>d t. False), form_errors = (\<lambda>d t. ''started: enter a valid date''),
               form_save = (\<lambda>c d t. 2) \<rparr>,
           management_form = None, task = (1::nat) \<rparr>) (Some [(''started'', ''never'')]))
   \<and> snd (snd (prepare (\<lambda>s. s) (Some [(''started'', ''never'')])
         \<lparr> management_form_cls = None,
           flow_cls_management_form_cls =
             \<lparr> form_is_valid = (\<lambda>d t. False), form_errors = (\<lambda>d t. ''started: enter a valid date''),
               form_save = (\<lambda>c d t. 2) \<rparr>,
           management_form = None, task = (1::nat) \<rparr>))
       = Inl (FlowRuntimeError ''Activation metadata is broken started: enter a valid date'')
   \<and> task (fst (snd (prepare (\<lambda>s. s) (Some [(''started'', ''never'')])
         \<lparr> management_form_cls = None,
           flow_cls_management_form_cls =
             \<lparr> form_is_valid = (\<lambda>d t. False), form_errors = (\<lambda>d t. ''started: enter a valid date''),
               form_save = (\<lambda>c d t. 2) \<rparr>,
           management_form = None, task = (1::nat) \<rparr>))) = 1"
proof -
  let ?a = "\<lparr> management_form_cls = None,
           flow_cls_management_form_cls =
             \<lparr> form_is_valid = (\<lambda>d t. False), form_errors = (\<lambda>d t. ''started: enter a valid date''),
               form_save = (\<lambda>c d t. 2) \<rparr>,
           management_form = None, task = (1::nat) \<rparr>"
  let ?d = "Some [(''started'', ''never'')]"
  have a: "data_truthy ?d" by (simp add: data_truthy_def)
  have b: "\<not> is_valid (new_management_form ((\<lambda>s. s) ?a) ?d)"
    by (simp add: is_valid_def new_management_form_def get_management_form_cls_def)
  have c: "task ((\<lambda>s. s) ?a) = task ?a" by simp
  have e: "errors (new_management_form ((\<lambda>s. s) ?a) ?d) = ''started: enter a valid date''"
    by (simp add: errors_def new_management_form_def get_management_form_cls_def)
  from prepare_invalid_data [where super_prepare = "\<lambda>s. s" and self = ?a and data = ?d]
  show ?thesis using a b c e by simp
qed

text \<open>
  C7. \<^verbatim>\<open>prepare(data)\<close> with data present and a form that validates returns normally
  with the task record replaced by what the form's \<^verbatim>\<open>save(commit=False)\<close> returns; the
  one save it asks for is that uncommitted one.
\<close>

theorem prepare_valid_data:
  assumes "data_truthy data"
      and "is_valid (new_management_form (super_prepare self) data)"
  shows "fst (prepare super_prepare data self) = [SuperPrepare, FormCreate, FormIsValid, FormSave False]
       \<and> FormSave True \<notin> set (fst (prepare super_prepare data self))
       \<and> snd (snd (prepare super_prepare data self)) = Inr ()
       \<and> task (fst (snd (prepare super_prepare data self)))
           = save (new_management_form (super_prepare self) data) False"
  using assms by (simp add: prepare_def Let_def)

theorem prepare_valid_data_witness:
  "data_truthy (Some [(''started'', ''2014-05-01'')])
   \<and> is_valid (new_management_form ((\<lambda>s. s)
         \<lparr> management_form_cls = None,
           flow_cls_management_form_cls =
             \<lparr> form_is_valid = (\<lambda>d t. True), form_errors = (\<lambda>d t. []),
               form_save = (\<lambda>c d t. if c then 3 else 2) \<rparr>,
           management_form = None, task = (1::nat) \<rparr>) (Some [(''started'', ''2014-05-01'')]))
   \<and> fst (prepare (\<lambda>s. s) (Some [(''started'', ''2014-05-01'')])
         \<lparr> management_form_cls = None,
           flow_cls_management_form_cls =
             \<lparr> form_is_valid = (\<lambda>d t. True), form_errors = (\<lambda>d t. []),
               form_save = (\<lambda>c d t. if c then 3 else 2) \<rparr>,
           management_form = None, task = (1::nat) \<rparr>)
       = [SuperPrepare, FormCreate, FormIsValid, FormSave False]
   \<and> task (fst (snd (prepare (\<lambda>s. s) (Some [(''started'', ''2014-05-01'')])
         \<lparr> management_form_cls = None,
           flow_cls_management_form_cls =
             \<lparr> form_is_valid = (\<lambda>d t. True), form_errors = (\<lambda>d t. []),
               form_save = (\<lambda>c d t. if c then 3 else 2) \<rparr>,
           management_form = None, task = (1::nat) \<rparr>))) = 2"
proof -
  let ?a = "\<lparr> management_form_cls = None,
           flow_cls_management_form_cls =
             \<lparr> form_is_valid = (\<lambda>d t. True), form_errors = (\<lambda>d t. []),
               form_save = (\<lambda>c d t. if c then 3 else 2) \<rparr>,
           management_form = None, task = (1::nat) \<rparr>"
  let ?d = "Some [(''started'', ''2014-05-01'')]"
  have a: "data_truthy ?d" by (simp add: data_truthy_def)
  have b: "is_valid (new_management_form ((\<lambda>s. s) ?a) ?d)"
    by (simp add: is_valid_def new_management_form_def get_management_form_cls_def)
  have e: "save (new_management_form ((\<lambda>s. s) ?a) ?d) False = 2"
    by (simp add: save_def new_management_form_def get_management_form_cls_def)
  from prepare_valid_data [where super_prepare = "\<lambda>s. s" and self = ?a and data = ?d]
  show ?thesis using a b e by simp
qed

subsection \<open>Construction\<close>

text \<open>
  C8. Constructed with a view class, the node is built, keeps the class as its view
  class, and its activation type is that class when the class is a \<^verbatim>\<open>StartActivation\<close>,
  whatever activation type was passed; otherwise it is the activation type passed, or
  the class default \<^verbatim>\<open>StartViewActivation\<close> when none was.
\<close>

theorem Start_init_view_class:
  "\<exists>self. (Start_init (ArgClass c) acls kwargs :: error + ('u, 'n) start) = Inr self
     \<and> p_view_cls self = Some c
     \<and> activation_cls self
         = Some (if is_StartActivation c then c
                 else (case acls of Some a \<Rightarrow> a | None \<Rightarrow> StartViewActivation))"
  by (simp add: Start_init_def Event_init_def activation_cls_def split: option.splits)

subsection \<open>StartViewDecorator\<close>

text \<open>A Start node always has an activation type: its own or the class default.\<close>

lemma activation_cls_Some:
  "\<exists>c. activation_cls self = Some c"
  by (simp add: activation_cls_def split: option.splits)

text \<open>Accessed on an instance that is a \<^verbatim>\<open>StartActivation\<close>, the decorator makes no
  activation: it warns, initialises the instance against the node and calls the bound
  method without an activation argument.\<close>

lemma decorator_call_view_is_activation:
  assumes "is_StartActivation (obj_cls i)"
  shows "decorator_call body (decorator_get d (Some i)) request flow_task kwargs
       = ([Warn (name flow_task), Initialize (ViewInstance i) flow_task,
           CallFunc (bind (func d) i) request None kwargs],
          Inr (body (bind (func d) i) request None kwargs))"
  using assms activation_cls_Some [of flow_task]
  by (auto simp add: decorator_call_def decorator_get_def)

text \<open>Accessed on any other instance, or wrapping a plain function, it makes an
  activation from the node's activation type, initialises it against the node and
  passes it to the wrapped callable; it does not warn.\<close>

lemma decorator_call_new_activation:
  assumes "\<not> is_StartActivation (obj_cls i)" and "activation_cls flow_task = Some c"
  shows "decorator_call body (decorator_get d (Some i)) request flow_task kwargs
       = ([Construct c, Initialize (NewActivation c) flow_task,
           CallFunc (bind (func d) i) request (Some (NewActivation c)) kwargs],
          Inr (body (bind (func d) i) request (Some (NewActivation c)) kwargs))"
  using assms by (simp add: decorator_call_def decorator_get_def)

lemma decorator_call_plain_function:
  assumes "activation_cls flow_task = Some c"
  shows "decorator_call body \<lparr> func = f, activation = None \<rparr> request flow_task kwargs
       = ([Construct c, Initialize (NewActivation c) flow_task,
           CallFunc f request (Some (NewActivation c)) kwargs],
          Inr (body f request (Some (NewActivation c)) kwargs))"
  using assms by (simp add: decorator_call_def)

text \<open>
  C9. The warning of lines 28 to 31 should be emitted exactly when the flow task also
  specifies an explicit activation type. Its guard reads \<^verbatim>\<open>flow_task.activation_cls\<close>,
  which on a Start node is never empty. On the node \<^verbatim>\<open>Start(StartView)\<close>, constructed
  with no activation type, the constructor stores the view class itself; the decorated
  \<^verbatim>\<open>dispatch\<close> accessed on a \<^verbatim>\<open>StartView\<close> instance and called with this node warns
  that the node's activation type is ignored, then initialises the instance and calls
  the method without an activation argument.
\<close>

theorem decorator_call_warns_on_default_node:
  "(Start_init (ArgClass (Cls ''StartView'' True)) None [] :: error + (nat, nat) start)
     = Inr \<lparr> p_view = None, p_view_cls = Some (Cls ''StartView'' True), p_view_args = Some [],
             activation_cls_attr = Some (Cls ''StartView'' True), name = None,
             p_activate_next = [], p_owner = PyNone, p_owner_permission = PyNone,
             p_assign_view = None \<rparr>
   \<and> decorator_call (\<lambda>f q a k. ''response'')
       (decorator_get \<lparr> func = Function ''dispatch'', activation = None \<rparr>
          (Some (Obj 1 (Cls ''StartView'' True))))
       ''request''
       (projr (Start_init (ArgClass (Cls ''StartView'' True)) None [] :: error + (nat, nat) start))
       []
     = ([Warn None,
         Initialize (ViewInstance (Obj 1 (Cls ''StartView'' True)))
           (projr (Start_init (ArgClass (Cls ''StartView'' True)) None [])),
         CallFunc (BoundMethod ''dispatch'' (Obj 1 (Cls ''StartView'' True))) ''request'' None []],
        Inr ''response'')"
  by (simp add: Start_init_def Event_init_def decorator_call_def decorator_get_def activation_cls_def)

end
